theory Spec2Isabelle
  imports Main "HOL-Library.Char_ord" "HOL-Library.List_Lexorder"
begin

section \<open>Python values used by update_data.py\<close>

subsection \<open>Floats\<close>

text \<open>
  A Python \<open>float\<close> is an IEEE 754 double: a signed zero or a signed dyadic
  rational, an infinity, or a NaN.  \<open>Dyadic s m e\<close> stands for
  \<open>(-1)^s * m * 2^e\<close>; every double is of this form (\<open>m < 2^53\<close>,
  \<open>-1074 \<le> e \<le> 971\<close>), so a statement about all values of this type
  covers all doubles.  \<open>Dyadic True 0 e\<close> is the negative zero.
\<close>

datatype pyfloat = Dyadic bool nat int | Infinity bool | NaN

definition is_double :: "pyfloat \<Rightarrow> bool" where
  "is_double x =
     (case x of Dyadic s m e \<Rightarrow> m < 2 ^ 53 \<and> - 1074 \<le> e \<and> e \<le> 971 | _ \<Rightarrow> True)"

text \<open>The signed mantissa of \<open>(-1)^s * m * 2^e\<close> at the smaller exponent \<open>k \<le> e\<close>.\<close>

definition scaled :: "bool \<Rightarrow> nat \<Rightarrow> int \<Rightarrow> int \<Rightarrow> int" where
  "scaled s m e k = (if s then - 1 else 1) * int m * 2 ^ nat (e - k)"

text \<open>
  The comparisons \<open>x > y\<close>, \<open>x <= y\<close> and \<open>x == y\<close> of Python floats, each
  written out on its own: every comparison with a NaN is false, and the two zeros
  are equal.
\<close>

fun float_gt :: "pyfloat \<Rightarrow> pyfloat \<Rightarrow> bool" where
  "float_gt NaN y = False"
| "float_gt x NaN = False"
| "float_gt (Infinity s) (Infinity t) = (\<not> s \<and> t)"
| "float_gt (Infinity s) (Dyadic t n f) = (\<not> s)"
| "float_gt (Dyadic s m e) (Infinity t) = t"
| "float_gt (Dyadic s m e) (Dyadic t n f) =
     (scaled t n f (min e f) < scaled s m e (min e f))"

fun float_le :: "pyfloat \<Rightarrow> pyfloat \<Rightarrow> bool" where
  "float_le NaN y = False"
| "float_le x NaN = False"
| "float_le (Infinity s) (Infinity t) = (s \<or> \<not> t)"
| "float_le (Infinity s) (Dyadic t n f) = s"
| "float_le (Dyadic s m e) (Infinity t) = (\<not> t)"
| "float_le (Dyadic s m e) (Dyadic t n f) =
     (scaled s m e (min e f) \<le> scaled t n f (min e f))"

fun float_eq :: "pyfloat \<Rightarrow> pyfloat \<Rightarrow> bool" where
  "float_eq NaN y = False"
| "float_eq x NaN = False"
| "float_eq (Infinity s) (Infinity t) = (s = t)"
| "float_eq (Infinity s) (Dyadic t n f) = False"
| "float_eq (Dyadic s m e) (Infinity t) = False"
| "float_eq (Dyadic s m e) (Dyadic t n f) =
     (scaled s m e (min e f) = scaled t n f (min e f))"

subsection \<open>Strings\<close>

text \<open>
  A Python \<open>str\<close> is modelled by the bytes of its UTF-8 encoding.  Concatenation
  and \<open>join\<close> commute with the encoding, the ASCII characters that
  \<open>str.format\<close> looks for never occur inside the encoding of another character,
  and the bytewise lexicographic order of two encodings is the code point order of
  the strings, which is how Python compares them.  \<open>utf8\<close> encodes the code
  points of the template's Japanese text.
\<close>

definition utf8_char :: "nat \<Rightarrow> string" where
  "utf8_char cp =
     (if cp < 0x80 then [char_of cp]
      else if cp < 0x800 then [char_of (0xC0 + cp div 64), char_of (0x80 + cp mod 64)]
      else if cp < 0x10000 then
        [char_of (0xE0 + cp div 4096), char_of (0x80 + cp div 64 mod 64),
         char_of (0x80 + cp mod 64)]
      else
        [char_of (0xF0 + cp div 262144), char_of (0x80 + cp div 4096 mod 64),
         char_of (0x80 + cp div 64 mod 64), char_of (0x80 + cp mod 64)])"

definition utf8 :: "nat list \<Rightarrow> string" where
  "utf8 cps = concat (map utf8_char cps)"

definition is_ascii :: "char \<Rightarrow> bool" where
  "is_ascii c = ((of_char c :: nat) < 128)"

text \<open>\<open>sep.join(parts)\<close>.\<close>

fun join :: "string \<Rightarrow> string list \<Rightarrow> string" where
  "join sep [] = []"
| "join sep [x] = x"
| "join sep (x # y # ys) = x @ sep @ join sep (y # ys)"

text \<open>\<open>str(n)\<close> for a natural number: its decimal digits.\<close>

definition digit :: "nat \<Rightarrow> char" where
  "digit d = char_of (48 + d)"

fun str_of_nat :: "nat \<Rightarrow> string" where
  "str_of_nat n = (if n < 10 then [digit n] else str_of_nat (n div 10) @ [digit (n mod 10)])"

declare str_of_nat.simps [simp del]

text \<open>
  \<open>format(x, ".2f")\<close> for a float: the exact value rounded to hundredths, ties
  to the even neighbour, with the sign of the float kept (\<open>-0.001\<close> gives
  \<open>-0.00\<close>); \<open>nan\<close> and \<open>inf\<close> for the special values.
\<close>

definition round_half_even :: "nat \<Rightarrow> nat \<Rightarrow> nat" where
  "round_half_even num den =
     (let q = num div den; r = num mod den
      in if den < 2 * r \<or> (2 * r = den \<and> odd q) then q + 1 else q)"

definition hundredths :: "nat \<Rightarrow> int \<Rightarrow> nat" where
  "hundredths m e =
     (if 0 \<le> e then m * 100 * 2 ^ nat e else round_half_even (m * 100) (2 ^ nat (- e)))"

fun format_2f :: "pyfloat \<Rightarrow> string" where
  "format_2f NaN = ''nan''"
| "format_2f (Infinity s) = (if s then ''-inf'' else ''inf'')"
| "format_2f (Dyadic s m e) =
     (let h = hundredths m e
      in (if s then ''-'' else []) @ str_of_nat (h div 100) @ ''.''
         @ [digit (h mod 100 div 10), digit (h mod 10)])"

subsection \<open>Exceptions\<close>

text \<open>
  The exceptions that the program and the library calls it makes can raise.
  \<open>Unmodelled\<close> marks the library behaviour this development does not spell out
  (see \<open>render_field\<close>); it is never counted as a result.
\<close>

datatype py_error =
    KeyError string
  | IndexError
  | ValueError string
  | TypeError
  | AttributeError
  | OverflowError
  | HTTPError
  | RequestException
  | JSONDecodeError
  | RuntimeError string
  | OSError
  | Unmodelled

subsection \<open>\<open>str.format\<close> with the single keyword argument \<open>year\<close>\<close>

text \<open>
  \<open>template.format(year=y)\<close> reads the template from left to right.  Outside a
  replacement field, \<open>{{\<close> and \<open>}}\<close> stand for one brace, a single \<open>}\<close> is an
  error, and a single \<open>{\<close> opens a replacement field
  \<open>{name!conversion:spec}\<close>.  The field is parsed up to its closing brace and then
  looked up and rendered, before the text after it is read; the first error ends
  the call.

  The first part of the field name (up to a \<open>.\<close> or \<open>[\<close>) is an index into the
  positional arguments when it is empty or a decimal number, and a keyword
  otherwise.  The call has no positional argument and the one keyword
  \<open>year\<close>.
\<close>

definition PY_SSIZE_T_MAX :: nat where
  "PY_SSIZE_T_MAX = 2 ^ 63 - 1"

datatype field_index = Not_Integer | Too_Many_Digits | Index nat | Non_Ascii

text \<open>
  The number a field name spells, read digit by digit; a digit that takes the number
  beyond \<open>PY_SSIZE_T_MAX\<close> is an error before the rest is looked at.  Digits outside
  ASCII are not modelled.
\<close>

fun get_integer :: "nat \<Rightarrow> string \<Rightarrow> field_index" where
  "get_integer acc [] = Index acc"
| "get_integer acc (c # cs) =
     (if \<not> is_ascii c then Non_Ascii
      else if c \<in> set ''0123456789'' then
        (let d = of_char c - 48
         in if (PY_SSIZE_T_MAX - d) div 10 < acc then Too_Many_Digits
            else get_integer (acc * 10 + d) cs)
      else Not_Integer)"

definition render_field :: "nat \<Rightarrow> string \<Rightarrow> char option \<Rightarrow> string \<Rightarrow> py_error + string" where
  "render_field y name conv spec =
     (let is_sep = (\<lambda>c. c = CHR ''.'' \<or> c = CHR ''['');
          first = takeWhile (\<lambda>c. \<not> is_sep c) name;
          rest = dropWhile (\<lambda>c. \<not> is_sep c) name
      in if first = [] then Inl IndexError
         else case get_integer 0 first of
           Too_Many_Digits \<Rightarrow> Inl (ValueError ''Too many decimal digits in format string'')
         | Index i \<Rightarrow> Inl IndexError
         | Non_Ascii \<Rightarrow> Inl Unmodelled
         | Not_Integer \<Rightarrow>
             if first \<noteq> ''year'' then Inl (KeyError first)
             else if rest \<noteq> [] then Inl Unmodelled
             else (case conv of
                     None \<Rightarrow> if spec = [] then Inr (str_of_nat y) else Inl Unmodelled
                   | Some c \<Rightarrow>
                       if \<not> is_ascii c then Inl Unmodelled
                       else if c \<notin> set ''rsa'' then
                         Inl (ValueError (''Unknown conversion specifier '' @ [c]))
                       else if spec = [] then Inr (str_of_nat y)
                       else Inl Unmodelled))"

definition emit :: "string \<Rightarrow> py_error + string \<Rightarrow> py_error + string" where
  "emit v r = (case r of Inl e \<Rightarrow> Inl e | Inr s \<Rightarrow> Inr (v @ s))"

datatype fmt_state =
    Text
  | Field_Name string
  | Field_Index string
  | Conversion string
  | Format_Spec string "char option" string nat

fun fmt :: "nat \<Rightarrow> fmt_state \<Rightarrow> string \<Rightarrow> py_error + string" where
  "fmt y Text [] = Inr []"
| "fmt y Text (c # cs) =
     (if c = CHR ''{'' then
        (case cs of
           [] \<Rightarrow> Inl (ValueError ''Single '{' encountered in format string'')
         | d # ds \<Rightarrow> if d = CHR ''{'' then emit [c] (fmt y Text ds) else fmt y (Field_Name []) cs)
      else if c = CHR ''}'' then
        (case cs of
           [] \<Rightarrow> Inl (ValueError ''Single '}' encountered in format string'')
         | d # ds \<Rightarrow>
             if d = CHR ''}'' then emit [c] (fmt y Text ds)
             else Inl (ValueError ''Single '}' encountered in format string''))
      else emit [c] (fmt y Text cs))"
| "fmt y (Field_Name n) [] = Inl (ValueError ''expected '}' before end of string'')"
| "fmt y (Field_Name n) (c # cs) =
     (if c = CHR ''{'' then Inl (ValueError ''unexpected '{' in field name'')
      else if c = CHR ''['' then fmt y (Field_Index (n @ [c])) cs
      else if c = CHR ''}'' then
        (case render_field y n None [] of
           Inl e \<Rightarrow> Inl e
         | Inr v \<Rightarrow> emit v (fmt y Text cs))
      else if c = CHR '':'' then fmt y (Format_Spec n None [] 1) cs
      else if c = CHR ''!'' then fmt y (Conversion n) cs
      else fmt y (Field_Name (n @ [c])) cs)"
| "fmt y (Field_Index n) [] = Inl (ValueError ''expected '}' before end of string'')"
| "fmt y (Field_Index n) (c # cs) =
     (if c = CHR '']'' then fmt y (Field_Name (n @ [c])) cs
      else fmt y (Field_Index (n @ [c])) cs)"
| "fmt y (Conversion n) [] =
     Inl (ValueError ''end of string while looking for conversion specifier'')"
| "fmt y (Conversion n) (c # cs) =
     (if \<not> is_ascii c then Inl Unmodelled
      else case cs of
        [] \<Rightarrow> Inl (ValueError ''unmatched '{' in format spec'')
      | d # ds \<Rightarrow>
          if d = CHR ''}'' then
            (case render_field y n (Some c) [] of
               Inl e \<Rightarrow> Inl e
             | Inr v \<Rightarrow> emit v (fmt y Text ds))
          else if d \<noteq> CHR '':'' then
            Inl (ValueError ''expected ':' after conversion specifier'')
          else fmt y (Format_Spec n (Some c) [] 1) ds)"
| "fmt y (Format_Spec n cv sp k) [] = Inl (ValueError ''unmatched '{' in format spec'')"
| "fmt y (Format_Spec n cv sp k) (c # cs) =
     (if c = CHR ''{'' then fmt y (Format_Spec n cv (sp @ [c]) (Suc k)) cs
      else if c = CHR ''}'' then
        (if k = 1 then
           (case render_field y n cv sp of
              Inl e \<Rightarrow> Inl e
            | Inr v \<Rightarrow> emit v (fmt y Text cs))
         else fmt y (Format_Spec n cv (sp @ [c]) (k - 1)) cs)
      else fmt y (Format_Spec n cv (sp @ [c]) k) cs)"

definition format_year :: "string \<Rightarrow> nat \<Rightarrow> py_error + string" where
  "format_year template y = fmt y Text template"

subsection \<open>Decoded JSON\<close>

text \<open>
  The Python object \<open>resp.json()\<close> returns: \<open>None\<close>, a bool, an int, a float, a
  str, a list or a dict with string keys (kept as an association list that
  \<open>map_of\<close> reads).
\<close>

datatype json =
    JNull
  | JBool bool
  | JInt int
  | JFloat pyfloat
  | JStr string
  | JArr "json list"
  | JObj "(string \<times> json) list"

text \<open>The truth value \<open>not x\<close> negates.\<close>

fun truthy :: "json \<Rightarrow> bool" where
  "truthy JNull = False"
| "truthy (JBool b) = b"
| "truthy (JInt n) = (n \<noteq> 0)"
| "truthy (JFloat x) = (case x of Dyadic s m e \<Rightarrow> m \<noteq> 0 | _ \<Rightarrow> True)"
| "truthy (JStr s) = (s \<noteq> [])"
| "truthy (JArr xs) = (xs \<noteq> [])"
| "truthy (JObj kvs) = (kvs \<noteq> [])"

definition and_then :: "py_error + 'a \<Rightarrow> ('a \<Rightarrow> py_error + 'b) \<Rightarrow> py_error + 'b" where
  "and_then r f = (case r of Inl e \<Rightarrow> Inl e | Inr v \<Rightarrow> f v)"

text \<open>\<open>d.get(key, default)\<close> on a dict.\<close>

definition dict_get :: "(string \<times> json) list \<Rightarrow> string \<Rightarrow> json \<Rightarrow> json" where
  "dict_get kvs key dflt = (case map_of kvs key of None \<Rightarrow> dflt | Some v \<Rightarrow> v)"

text \<open>
  \<open>float(n)\<close> for an int: the nearest double, ties to even, and
  \<open>OverflowError\<close> when that is beyond the largest double.
\<close>

fun bit_length :: "nat \<Rightarrow> nat" where
  "bit_length n = (if n = 0 then 0 else Suc (bit_length (n div 2)))"

declare bit_length.simps [simp del]

definition float_of_int :: "int \<Rightarrow> py_error + pyfloat" where
  "float_of_int n =
     (let a = nat \<bar>n\<bar>; k = bit_length a - 53; q = round_half_even a (2 ^ k)
      in if 2 ^ 1024 \<le> q * 2 ^ k then Inl OverflowError
         else Inr (Dyadic (n < 0) q (int k)))"

text \<open>
  \<open>float(x)\<close> for a decoded JSON value.  Parsing a string as a float is library
  code; it is the parameter \<open>parse\<close> (\<open>None\<close> when the string is no number).
\<close>

fun py_float :: "(string \<Rightarrow> pyfloat option) \<Rightarrow> json \<Rightarrow> py_error + pyfloat" where
  "py_float parse JNull = Inl TypeError"
| "py_float parse (JBool b) = Inr (Dyadic False (if b then 1 else 0) 0)"
| "py_float parse (JInt n) = float_of_int n"
| "py_float parse (JFloat x) = Inr x"
| "py_float parse (JStr s) =
     (case parse s of
        None \<Rightarrow> Inl (ValueError ''could not convert string to float'')
      | Some x \<Rightarrow> Inr x)"
| "py_float parse (JArr xs) = Inl TypeError"
| "py_float parse (JObj kvs) = Inl TypeError"

section \<open>The environment of a run\<close>

text \<open>
  What the program reads from outside: the environment variable, the clock, the
  Wikipedia page as \<open>pandas.read_html\<close> returns it, the answers of the HTTP
  server (which may depend on the requests made before), and whether
  \<open>index.html\<close> can be opened for writing.
\<close>

datatype request = Request string "(string \<times> string) list"

datatype http_outcome = No_Response | Response nat "json option"

type_synonym table = "(string \<times> string list) list"

record world =
  getenv_FINNHUB_API_KEY :: "string option"
  now_year :: nat
  read_html :: "py_error + table list"
  http :: "request list \<Rightarrow> request \<Rightarrow> http_outcome"
  float_of_str :: "string \<Rightarrow> pyfloat option"
  writable :: bool

text \<open>What the program does to the outside: requests sent, file written, lines printed.\<close>

record state =
  requests :: "request list"
  index_html :: "string option"
  printed :: "string list"

definition init_state :: state where
  "init_state = \<lparr>requests = [], index_html = None, printed = []\<rparr>"

section \<open>The constituent loader\<close>

record constituent =
  symbol :: string
  name :: string

definition wikipedia_url :: string where
  "wikipedia_url = ''https://en.wikipedia.org/wiki/List_of_S%26P_500_companies''"

text \<open>
  A table is its columns, each a name with its cells.  The loader takes the first
  table of the page, selects the columns \<open>Symbol\<close> and \<open>Security\<close> and returns
  one record per row; every failure is raised to the caller.
\<close>

definition get_sp500_symbols :: "world \<Rightarrow> state \<Rightarrow> (py_error + constituent list) \<times> state" where
  "get_sp500_symbols w s =
     (and_then (read_html w) (\<lambda>tables.
        case tables of
          [] \<Rightarrow> Inl IndexError
        | sp500_table # _ \<Rightarrow>
            (case map_of sp500_table ''Symbol'' of
               None \<Rightarrow> Inl (KeyError ''Symbol'')
             | Some symbols \<Rightarrow>
                 (case map_of sp500_table ''Security'' of
                    None \<Rightarrow> Inl (KeyError ''Security'')
                  | Some names \<Rightarrow>
                      Inr (map (\<lambda>(sy, n). \<lparr>symbol = sy, name = n\<rparr>) (zip symbols names))))),
      s\<lparr>requests := requests s @ [Request wikipedia_url []]\<rparr>)"

section \<open>The market data client\<close>

text \<open>
  The dictionary \<open>fetch_last_earnings\<close> builds has exactly the four keys below,
  each holding a float.
\<close>

record earnings =
  actual_eps :: pyfloat
  estimate_eps :: pyfloat
  actual_revenue :: pyfloat
  estimate_revenue :: pyfloat

definition API_BASE :: string where
  "API_BASE = ''https://finnhub.io/api/v1''"

definition session_get :: "world \<Rightarrow> request \<Rightarrow> state \<Rightarrow> http_outcome \<times> state" where
  "session_get w rq s = (http w (requests s) rq, s\<lparr>requests := requests s @ [rq]\<rparr>)"

text \<open>
  \<open>session.get\<close>, \<open>raise_for_status\<close> and \<open>resp.json()\<close>: the decoded body, or
  the exception one of the three raises.
\<close>

definition decoded_body :: "http_outcome \<Rightarrow> py_error + json" where
  "decoded_body r =
     (case r of
        No_Response \<Rightarrow> Inl RequestException
      | Response code body \<Rightarrow>
          if 400 \<le> code \<and> code < 600 then Inl HTTPError
          else (case body of None \<Rightarrow> Inl JSONDecodeError | Some data \<Rightarrow> Inr data))"

text \<open>The body of the \<open>try\<close> in \<open>fetch_quote\<close>, after the request.\<close>

definition quote_of :: "world \<Rightarrow> http_outcome \<Rightarrow> py_error + pyfloat" where
  "quote_of w r =
     and_then (decoded_body r) (\<lambda>data.
       case data of
         JObj kvs \<Rightarrow> py_float (float_of_str w) (dict_get kvs ''c'' JNull)
       | _ \<Rightarrow> Inl AttributeError)"

definition quote_request :: "string \<Rightarrow> string \<Rightarrow> request" where
  "quote_request ticker token =
     Request (API_BASE @ ''/quote'') [(''symbol'', ticker), (''token'', token)]"

definition fetch_quote :: "world \<Rightarrow> string \<Rightarrow> string \<Rightarrow> state \<Rightarrow> pyfloat option \<times> state" where
  "fetch_quote w ticker token s =
     (let (r, s') = session_get w (quote_request ticker token) s
      in (case quote_of w r of Inl e \<Rightarrow> None | Inr q \<Rightarrow> Some q, s'))"

text \<open>
  \<open>records[0]\<close> followed by \<open>rec.get\<close>: the dict that the first record must be
  for the lookups to go through.
\<close>

fun first_record :: "json \<Rightarrow> py_error + (string \<times> json) list" where
  "first_record (JArr []) = Inl IndexError"
| "first_record (JArr (JObj kvs # _)) = Inr kvs"
| "first_record (JArr (_ # _)) = Inl AttributeError"
| "first_record (JStr s) = Inl AttributeError"
| "first_record (JObj kvs) = Inl (KeyError ''0'')"
| "first_record _ = Inl TypeError"

text \<open>
  The body of the \<open>try\<close> in \<open>fetch_last_earnings\<close>, after the request:
  \<open>None\<close> for a falsy body, otherwise the four fields of the first record, each
  read with the default \<open>0\<close> and converted to a float.
\<close>

definition float_field :: "world \<Rightarrow> (string \<times> json) list \<Rightarrow> string \<Rightarrow> py_error + pyfloat" where
  "float_field w rec key = py_float (float_of_str w) (dict_get rec key (JInt 0))"

definition earnings_of :: "world \<Rightarrow> http_outcome \<Rightarrow> py_error + earnings option" where
  "earnings_of w r =
     and_then (decoded_body r) (\<lambda>records.
       if \<not> truthy records then Inr None
       else
         and_then (first_record records) (\<lambda>rec.
         and_then (float_field w rec ''actual'') (\<lambda>a.
         and_then (float_field w rec ''estimate'') (\<lambda>b.
         and_then (float_field w rec ''revenueActual'') (\<lambda>c.
         and_then (float_field w rec ''revenueEstimate'') (\<lambda>d.
           Inr (Some \<lparr>actual_eps = a, estimate_eps = b,
                      actual_revenue = c, estimate_revenue = d\<rparr>)))))))"

definition earnings_request :: "string \<Rightarrow> string \<Rightarrow> request" where
  "earnings_request ticker token =
     Request (API_BASE @ ''/stock/earnings'') [(''symbol'', ticker), (''token'', token)]"

definition fetch_last_earnings ::
  "world \<Rightarrow> string \<Rightarrow> string \<Rightarrow> state \<Rightarrow> earnings option \<times> state" where
  "fetch_last_earnings w ticker token s =
     (let (r, s') = session_get w (earnings_request ticker token) s
      in (case earnings_of w r of Inl e \<Rightarrow> None | Inr res \<Rightarrow> res, s'))"

section \<open>The earnings evaluator\<close>

definition is_good_earnings :: "earnings \<Rightarrow> bool" where
  "is_good_earnings r =
     (float_gt (actual_eps r) (estimate_eps r)
      \<and> float_gt (actual_revenue r) (estimate_revenue r))"

section \<open>The report renderer\<close>

text \<open>An entry is the constituent's two fields with the price and the flag.\<close>

record report_entry = constituent +
  price :: pyfloat
  good :: bool

text \<open>
  The lines \<open>build_html\<close> starts \<open>html_parts\<close> with.  The source writes them as
  one list literal; it is cut in three here: the lines up to \<open><style>\<close>, the
  style rules, and the lines from \<open></style>\<close> to \<open><tbody>\<close>.
\<close>

definition html_preamble :: "string list" where
  \<open>html_preamble =
    [
     ''<!DOCTYPE html>'',
     ''<html lang="ja">'',
     ''<head>'',
     ''  <meta charset="UTF-8">'',
     ''  <meta name="viewport" content="width=device-width, initial-scale=1.0">'',
     ''  <title>AI'' @ utf8 [0x5E83, 0x702C, 0x306E, 0x7C73, 0x56FD, 0x682A, 0x6C7A, 0x7B97, 0x5206,
       0x6790] @ ''</title>'',
     ''  <style>''
    ]\<close>

definition html_style :: "string list" where
  \<open>html_style =
    [
     ''    body { font-family: 'Helvetica Neue', Arial, sans-serif; margin: 0; padding: 0; background-color: #f7f9fc; color: #333; line-height: 1.6; }'',
     ''    header { background: linear-gradient(60deg, #007bff, #0d47a1); color: #fff; padding: 50px 20px; text-align: center; }'',
     ''    header h1 { margin: 0; font-size: 2.2rem; }'',
     ''    header .tagline { margin-top: 10px; font-size: 1.1rem; opacity: 0.85; }'',
     ''    main { max-width: 960px; margin: 0 auto; padding: 40px 20px; }'',
     ''    h2 { margin-top: 0; margin-bottom: 15px; color: #0d47a1; border-bottom: 2px solid #007bff; padding-bottom: 4px; font-size: 1.6rem; }'',
     ''    section { margin-bottom: 40px; }'',
     ''    p { margin-bottom: 20px; font-size: 0.98rem; }'',
     ''    ol { margin-left: 20px; margin-bottom: 20px; }'',
     ''    ol li { margin-bottom: 5px; }'',
     ''    table { width: 100%; border-collapse: collapse; background-color: #fff; box-shadow: 0 2px 4px rgba(0,0,0,0.05); font-size: 0.92rem; }'',
     ''    table th, table td { padding: 12px 15px; border-bottom: 1px solid #e0e6ed; vertical-align: middle; }'',
     ''    table th { background-color: #f3f6fa; text-align: left; font-weight: 600; }'',
     ''    table tbody tr:nth-child(even) { background-color: #fafbfc; }'',
     ''    table tbody tr:hover { background-color: #f1f5fa; }'',
     ''    .good { color: #27ae60; font-weight: 600; }'',
     ''    .no { color: #c0392b; font-weight: 600; }'',
     ''    .note { font-size: 0.8rem; color: #666; }'',
     ''    footer { text-align: center; padding: 25px 10px; background-color: #f3f6fa; color: #444; font-size: 0.85rem; }'',
     ''    footer a { color: #0d47a1; text-decoration: none; }''
    ]\<close>

definition html_body :: "string list" where
  \<open>html_body =
    [
     ''  </style>'',
     ''</head>'',
     ''<body>'',
     ''  <header>'',
     ''    <h1>AI'' @ utf8 [0x5E83, 0x702C, 0x306E, 0x7C73, 0x56FD, 0x682A, 0x6C7A, 0x7B97, 0x5206,
       0x6790] @ ''</h1>'',
     ''    <p class="tagline">'' @ utf8 [0x500B, 0x4EBA, 0x6295, 0x8CC7, 0x5BB6, 0x306E, 0x305F,
       0x3081, 0x306E, 0x7C73, 0x56FD, 0x682A, 0x60C5, 0x5831, 0x30B5, 0x30A4, 0x30C8] @ ''</p>'',
     ''  </header>'',
     ''  <main>'',
     ''    <section id="about">'',
     ''      <h2>'' @ utf8 [0x30B5, 0x30A4, 0x30C8, 0x6982, 0x8981] @ ''</h2>'',
     ''      <p>'' @ utf8 [0x5F53, 0x30B5, 0x30A4, 0x30C8, 0x306F, 0x3001] @ ''S&P500 '' @
       utf8 [0x306B, 0x542B, 0x307E, 0x308C, 0x308B, 0x7C73, 0x56FD, 0x682A, 0x3092, 0x5BFE, 0x8C61,
       0x306B, 0x3001, 0x6C7A, 0x7B97, 0x60C5, 0x5831, 0x3068, 0x682A, 0x4FA1, 0x3092, 0x81EA, 0x52D5,
       0x53CE, 0x96C6, 0x3057, 0x3001] @ ''<strong>'' @ utf8 [0x826F, 0x3044, 0x6C7A, 0x7B97] @
       ''</strong>'' @ utf8 [0x3092, 0x51FA, 0x3057, 0x305F, 0x4F01, 0x696D, 0x3092, 0x4E00, 0x89A7,
       0x8868, 0x793A, 0x3057, 0x307E, 0x3059, 0x3002, 0x5E83, 0x702C, 0x9686, 0x96C4, 0x6C0F, 0x304C,
       0x63D0, 0x5531, 0x3059, 0x308B, 0x300E, 0x826F, 0x3044, 0x6C7A, 0x7B97, 0x300F, 0x306E, 0x6761,
       0x4EF6, 0x306B, 0x57FA, 0x3065, 0x3044, 0x3066, 0x3001, 0x6700, 0x65B0, 0x306E] @ '' EPS '' @
       utf8 [0x3068, 0x58F2, 0x4E0A, 0x9AD8, 0x304C, 0x5E02, 0x5834, 0x4E88, 0x60F3, 0x3092, 0x4E0A,
       0x56DE, 0x3063, 0x305F, 0x9298, 0x67C4, 0x3060, 0x3051, 0x3092, 0x63B2, 0x8F09, 0x3057, 0x3066,
       0x3044, 0x307E, 0x3059, 0x3002, 0x5404, 0x884C, 0x3067, 0x306F, 0x4F01, 0x696D, 0x540D, 0x3001,
       0x30C6, 0x30A3, 0x30C3, 0x30AB, 0x30FC, 0x3001, 0x73FE, 0x5728, 0x682A, 0x4FA1, 0x3001, 0x8A55,
       0x4FA1, 0x7D50, 0x679C, 0x3092, 0x78BA, 0x8A8D, 0x3067, 0x304D, 0x307E, 0x3059, 0x3002] @
       ''</p>'',
     ''    </section>'',
     ''    <section id="good-earnings">'',
     ''      <h2>'' @ utf8 [0x300E, 0x826F, 0x3044, 0x6C7A, 0x7B97, 0x300F, 0x3068, 0x306F, 0xFF1F] @
       ''</h2>'',
     ''      <p>'' @ utf8 [0x5E83, 0x702C, 0x9686, 0x96C4, 0x6C0F, 0x306B, 0x3088, 0x308B, 0x3068,
       0x3001, 0x300E, 0x826F, 0x3044, 0x6C7A, 0x7B97, 0x300F, 0x3068, 0x306F, 0x6B21, 0x306E] @
       '' 3 '' @ utf8 [0x3064, 0x306E, 0x6307, 0x6A19, 0x304C, 0x3059, 0x3079, 0x3066, 0x5E02, 0x5834,
       0x4E88, 0x60F3, 0xFF08, 0x30B3, 0x30F3, 0x30BB, 0x30F3, 0x30B5, 0x30B9, 0xFF09, 0x3092, 0x4E0A,
       0x56DE, 0x308B, 0x6C7A, 0x7B97, 0x3092, 0x6307, 0x3057, 0x307E, 0x3059] @
       ''<sup><a href="#cite-hirosekessan">[1]</a></sup>'' @ utf8 [0x3002] @ ''</p>'',
     ''      <ol>'',
     ''        <li>EPS'' @ utf8 [0xFF08] @ ''1'' @ utf8 [0x682A, 0x5F53, 0x305F, 0x308A, 0x5229,
       0x76CA, 0xFF09] @ ''</li>'',
     ''        <li>'' @ utf8 [0x58F2, 0x4E0A, 0x9AD8] @ ''</li>'',
     ''        <li>'' @ utf8 [0x4F1A, 0x793E, 0x5074, 0x30AC, 0x30A4, 0x30C0, 0x30F3, 0x30B9, 0xFF08,
       0x6765, 0x671F, 0x30FB, 0x4ECA, 0x5E74, 0x5EA6, 0x306E, 0x898B, 0x901A, 0x3057, 0xFF09] @
       ''</li>'',
     ''      </ol>'',
     ''      <p>'' @ utf8 [0x672C, 0x30B5, 0x30A4, 0x30C8, 0x3067, 0x306F, 0x30AC, 0x30A4, 0x30C0,
       0x30F3, 0x30B9, 0x30C7, 0x30FC, 0x30BF, 0x304C, 0x53D6, 0x5F97, 0x3067, 0x304D, 0x306A, 0x3044,
       0x305F, 0x3081, 0x3001] @ ''1 '' @ utf8 [0x3068] @ '' 2 '' @ utf8 [0x306E, 0x6761, 0x4EF6,
       0x3092, 0x6E80, 0x305F, 0x3059, 0x4F01, 0x696D, 0x3092, 0x300E, 0x826F, 0x3044, 0x6C7A, 0x7B97,
       0x300F, 0x3068, 0x3057, 0x3066, 0x3044, 0x307E, 0x3059, 0x3002] @ ''</p>'',
     ''    </section>'',
     ''    <section id="table-section">'',
     ''      <h2>'' @ utf8 [0x826F, 0x3044, 0x6C7A, 0x7B97, 0x3092, 0x51FA, 0x3057, 0x305F, 0x9298,
       0x67C4, 0x4E00, 0x89A7] @ ''</h2>'',
     ''      <table>'',
     ''        <thead>'',
     ''          <tr>'',
     ''            <th>'' @ utf8 [0x4F01, 0x696D, 0x540D] @ ''</th>'',
     ''            <th>'' @ utf8 [0x30C6, 0x30A3, 0x30C3, 0x30AB, 0x30FC] @ ''</th>'',
     ''            <th>'' @ utf8 [0x682A, 0x4FA1, 0xFF08] @ ''USD'' @ utf8 [0xFF09] @ ''</th>'',
     ''            <th>'' @ utf8 [0x8A55, 0x4FA1, 0x7D50, 0x679C] @ ''</th>'',
     ''          </tr>'',
     ''        </thead>'',
     ''        <tbody>''
    ]\<close>

text \<open>The lines appended after the table rows.\<close>

definition html_footer :: "string list" where
  \<open>html_footer =
    [
     ''        </tbody>'',
     ''      </table>'',
     ''      <p class="note">'' @ utf8 [0x8868, 0x306B, 0x8868, 0x793A, 0x3055, 0x308C, 0x3066,
       0x3044, 0x308B, 0x30C7, 0x30FC, 0x30BF, 0x306F] @ '' Finnhub API '' @ utf8 [0x3092, 0x4F7F,
       0x7528, 0x3057, 0x3066, 0x751F, 0x6210, 0x3055, 0x308C, 0x3066, 0x3044, 0x307E, 0x3059,
       0x3002] @ ''API '' @ utf8 [0x306F] @ '' RESTful '' @ utf8 [0x306A] @ '' JSON '' @ utf8 [0x5F62,
       0x5F0F, 0x3067, 0x30EC, 0x30B9, 0x30DD, 0x30F3, 0x30B9, 0x3092, 0x8FD4, 0x3057, 0x3001, 0x3059,
       0x3079, 0x3066, 0x306E] @ '' GET '' @ utf8 [0x30EA, 0x30AF, 0x30A8, 0x30B9, 0x30C8, 0x3067] @
       '' token '' @ utf8 [0x30D1, 0x30E9, 0x30E1, 0x30FC, 0x30BF, 0x304C, 0x5FC5, 0x8981, 0x3067,
       0x3059, 0x3010] @ ''421114312369163'' @ utf8 [0x2020] @ ''L139-L154'' @ utf8 [0x3011, 0x3002] @
       ''API '' @ utf8 [0x30AD, 0x30FC, 0x306E, 0x8A2D, 0x5B9A, 0x65B9, 0x6CD5, 0x306B, 0x3064, 0x3044,
       0x3066, 0x306F, 0x30EA, 0x30DD, 0x30B8, 0x30C8, 0x30EA, 0x306E] @ '' README '' @ utf8 [0x3092,
       0x53C2, 0x7167, 0x3057, 0x3066, 0x304F, 0x3060, 0x3055, 0x3044, 0x3002] @ ''</p>'',
     ''    </section>'',
     ''    <section id="footnotes">'',
     ''      <p id="cite-hirosekessan" class="note"><strong>[1]</strong> '' @ utf8 [0x826F, 0x3044,
       0x6C7A, 0x7B97, 0x306E, 0x6761, 0x4EF6, 0x306F] @ '' EPS'' @ utf8 [0x3001, 0x58F2, 0x4E0A,
       0x9AD8, 0x3001, 0x4F1A, 0x793E, 0x30AC, 0x30A4, 0x30C0, 0x30F3, 0x30B9, 0x304C, 0x5E02, 0x5834,
       0x4E88, 0x60F3, 0x3092, 0x3059, 0x3079, 0x3066, 0x4E0A, 0x56DE, 0x308B, 0x3053, 0x3068,
       0x3010] @ ''643053757984928'' @ utf8 [0x2020] @ ''L296-L304'' @ utf8 [0x3011, 0x3002] @ ''</p>'',
     ''    </section>'',
     ''  </main>'',
     ''  <footer>'',
     ''    <p>&copy; {year} AI'' @ utf8 [0x5E83, 0x702C, 0x306E, 0x7C73, 0x56FD, 0x682A, 0x6C7A,
       0x7B97, 0x5206, 0x6790] @ ''. All rights reserved.</p>'',
     ''  </footer>'',
     ''</body>'',
     ''</html>''
    ]\<close>

text \<open>The line the loop appends for one entry (an f-string).\<close>

definition table_row :: "report_entry \<Rightarrow> string" where
  \<open>table_row entry =
     (let cls = (if good entry then ''good'' else ''no'');
          result_text =
            (if good entry then utf8 [0x826F, 0x3044, 0x6C7A, 0x7B97]
             else utf8 [0x8A72, 0x5F53, 0x306A, 0x3057])
      in ''          <tr><td>'' @ name entry @ ''</td><td>'' @ symbol entry @ ''</td><td>''
         @ format_2f (price entry) @ ''</td><td class="'' @ cls @ ''">'' @ result_text
         @ ''</td></tr>'')\<close>

definition html_parts :: "report_entry list \<Rightarrow> string list" where
  "html_parts entries =
     html_preamble @ html_style @ html_body @ map table_row entries @ html_footer"

text \<open>
  \<open>build_html\<close> joins the lines with newlines and calls \<open>format\<close> on the whole
  text with the current year (\<open>datetime.now().year\<close>, read from the clock).
\<close>

definition build_html :: "world \<Rightarrow> report_entry list \<Rightarrow> py_error + string" where
  "build_html w entries = format_year (join [CHR 0x0A] (html_parts entries)) (now_year w)"

section \<open>The pipeline driver\<close>

text \<open>The loop of \<open>main\<close> over the constituents, appending to \<open>entries\<close>.\<close>

fun for_items ::
  "world \<Rightarrow> string \<Rightarrow> constituent list \<Rightarrow> report_entry list \<Rightarrow> state
   \<Rightarrow> report_entry list \<times> state" where
  "for_items w token [] entries s = (entries, s)"
| "for_items w token (item # items) entries s =
     (let (quote, s1) = fetch_quote w (symbol item) token s;
          (earnings, s2) = fetch_last_earnings w (symbol item) token s1
      in case (quote, earnings) of
           (Some q, Some e) \<Rightarrow>
             (let good = is_good_earnings e
              in if good then
                   for_items w token items
                     (entries @ [\<lparr>symbol = symbol item, name = name item,
                                  price = q, good = good\<rparr>]) s2
                 else for_items w token items entries s2)
         | _ \<Rightarrow> for_items w token items entries s2)"

text \<open>The entries \<open>main\<close> hands to \<open>build_html\<close>: collected, then sorted by symbol.\<close>

definition sorted_entries :: "world \<Rightarrow> string \<Rightarrow> constituent list \<Rightarrow> state \<Rightarrow> report_entry list" where
  "sorted_entries w token sp500 s = sort_key symbol (fst (for_items w token sp500 [] s))"

definition summary :: "report_entry list \<Rightarrow> string" where
  "summary entries =
     ''Generated HTML for '' @ str_of_nat (length entries) @ '' companies with good earnings.''"

definition main :: "world \<Rightarrow> (py_error + unit) \<times> state" where
  "main w =
     (case getenv_FINNHUB_API_KEY w of
        None \<Rightarrow>
          (Inl (RuntimeError ''FINNHUB_API_KEY environment variable not set. Please supply your Finnhub API key.''),
           init_state)
      | Some token \<Rightarrow>
          if token = [] then
            (Inl (RuntimeError ''FINNHUB_API_KEY environment variable not set. Please supply your Finnhub API key.''),
             init_state)
          else
            (let (loaded, s1) = get_sp500_symbols w init_state
             in case loaded of
                  Inl e \<Rightarrow> (Inl e, s1)
                | Inr sp500 \<Rightarrow>
                    (let s2 = snd (for_items w token sp500 [] s1);
                         entries = sorted_entries w token sp500 s1
                     in case build_html w entries of
                          Inl e \<Rightarrow> (Inl e, s2)
                        | Inr html \<Rightarrow>
                            if \<not> writable w then (Inl OSError, s2)
                            else (Inr (),
                                  s2\<lparr>index_html := Some html,
                                     printed := printed s2 @ [summary entries]\<rparr>))))"

section \<open>The scenarios of the specification\<close>

text \<open>The numbers of the scenarios, as the doubles Python reads them.\<close>

definition f_2_10 :: pyfloat where "f_2_10 = Dyadic False 4728779608739021 (- 51)"
definition f_2_00 :: pyfloat where "f_2_00 = Dyadic False 1 1"
definition f_1_90 :: pyfloat where "f_1_90 = Dyadic False 8556839292003942 (- 52)"
definition f_1_50 :: pyfloat where "f_1_50 = Dyadic False 3 (- 1)"
definition f_500 :: pyfloat where "f_500 = Dyadic False 500 0"
definition f_480 :: pyfloat where "f_480 = Dyadic False 480 0"
definition f_101_23 :: pyfloat where "f_101_23 = Dyadic False 7123427973104927 (- 46)"

definition scenario1_earnings :: earnings where
  "scenario1_earnings =
     \<lparr>actual_eps = f_2_10, estimate_eps = f_2_00,
      actual_revenue = f_500, estimate_revenue = f_480\<rparr>"

definition scenario2_earnings :: earnings where
  "scenario2_earnings =
     \<lparr>actual_eps = f_1_90, estimate_eps = f_2_00,
      actual_revenue = f_500, estimate_revenue = f_480\<rparr>"

definition boundary_earnings :: earnings where
  "boundary_earnings =
     \<lparr>actual_eps = f_1_50, estimate_eps = f_1_50,
      actual_revenue = f_500, estimate_revenue = f_480\<rparr>"

definition alpha_entry :: report_entry where
  "alpha_entry = \<lparr>symbol = ''AAA'', name = ''Alpha Corp'', price = f_101_23, good = True\<rparr>"

text \<open>
  A server that answers by endpoint and symbol from two tables, whatever was
  requested before; a symbol missing from a table gets no response.
\<close>

definition table_http ::
  "(string \<times> http_outcome) list \<Rightarrow> (string \<times> http_outcome) list
   \<Rightarrow> request list \<Rightarrow> request \<Rightarrow> http_outcome" where
  "table_http quotes earns history rq =
     (case rq of Request url params \<Rightarrow>
        (case map_of params ''symbol'' of
           None \<Rightarrow> No_Response
         | Some sy \<Rightarrow>
             if url = API_BASE @ ''/quote'' then
               (case map_of quotes sy of None \<Rightarrow> No_Response | Some r \<Rightarrow> r)
             else if url = API_BASE @ ''/stock/earnings'' then
               (case map_of earns sy of None \<Rightarrow> No_Response | Some r \<Rightarrow> r)
             else No_Response))"

definition example_world ::
  "string option \<Rightarrow> (string \<times> string) list \<Rightarrow> (string \<times> http_outcome) list
   \<Rightarrow> (string \<times> http_outcome) list \<Rightarrow> world" where
  "example_world key listing quotes earns =
     \<lparr>getenv_FINNHUB_API_KEY = key, now_year = 2026,
      read_html = Inr [[(''Symbol'', map fst listing), (''Security'', map snd listing)]],
      http = table_http quotes earns, float_of_str = (\<lambda>s. None), writable = True\<rparr>"

definition quote_101_23 :: http_outcome where
  "quote_101_23 = Response 200 (Some (JObj [(''c'', JFloat f_101_23)]))"

definition good_earnings_body :: http_outcome where
  "good_earnings_body =
     Response 200 (Some (JArr [JObj [(''actual'', JFloat f_2_10), (''estimate'', JFloat f_2_00),
        (''revenueActual'', JInt 500), (''revenueEstimate'', JInt 480)]]))"

text \<open>Scenario 1: one constituent with a quote and qualifying earnings.\<close>

definition scenario1_world :: world where
  "scenario1_world =
     example_world (Some ''key'') [(''AAA'', ''Alpha Corp'')]
       [(''AAA'', quote_101_23)] [(''AAA'', good_earnings_body)]"

text \<open>
  Scenario 3: the quote request for \<open>AAA\<close> gets no response although its earnings
  qualify; a second constituent \<open>BBB\<close> is answered in full.
\<close>

definition scenario3_world :: world where
  "scenario3_world =
     example_world (Some ''key'') [(''AAA'', ''Alpha Corp''), (''BBB'', ''Beta Inc'')]
       [(''BBB'', quote_101_23)] [(''AAA'', good_earnings_body), (''BBB'', good_earnings_body)]"

text \<open>Scenario 4: two qualifying constituents listed as \<open>ZZZ\<close>, then \<open>AAA\<close>.\<close>

definition scenario4_world :: world where
  "scenario4_world =
     example_world (Some ''key'') [(''ZZZ'', ''Zeta Ltd''), (''AAA'', ''Alpha Corp'')]
       [(''ZZZ'', quote_101_23), (''AAA'', quote_101_23)]
       [(''ZZZ'', good_earnings_body), (''AAA'', good_earnings_body)]"

text \<open>No credential: the variable is unset, or set to the empty string.\<close>

definition unset_key_world :: world where
  "unset_key_world = example_world None [(''AAA'', ''Alpha Corp'')]
       [(''AAA'', quote_101_23)] [(''AAA'', good_earnings_body)]"

definition empty_key_world :: world where
  "empty_key_world = example_world (Some []) [(''AAA'', ''Alpha Corp'')]
       [(''AAA'', quote_101_23)] [(''AAA'', good_earnings_body)]"

text \<open>
  An earnings answer whose first record has no \<open>revenueEstimate\<close>, and one that
  fails with status 500.
\<close>

definition missing_field_body :: http_outcome where
  "missing_field_body =
     Response 200 (Some (JArr [JObj [(''actual'', JFloat f_2_10), (''estimate'', JFloat f_2_00),
        (''revenueActual'', JInt 500)]]))"

definition missing_field_world :: world where
  "missing_field_world =
     example_world (Some ''key'') [(''AAA'', ''Alpha Corp'')]
       [(''AAA'', quote_101_23)] [(''AAA'', missing_field_body)]"

definition server_error_world :: world where
  "server_error_world =
     example_world (Some ''key'') [(''AAA'', ''Alpha Corp'')]
       [(''AAA'', quote_101_23)] [(''AAA'', Response 500 None)]"

section \<open>Properties of the evaluator\<close>

lemma float_le_not_gt: "float_le x y \<Longrightarrow> \<not> float_gt x y"
  by (cases x; cases y) auto

lemma float_eq_not_gt: "float_eq x y \<Longrightarrow> \<not> float_gt x y"
  by (cases x; cases y) auto

text \<open>
  Claim C1.  \<open>is_good_earnings\<close> is true for every record whose actual EPS is
  strictly greater than the estimate and whose actual revenue is strictly greater
  than the estimate; it is false for every record in which either comparison is
  less than or equal, and in particular when either pair is equal.
\<close>

theorem is_good_earnings_strict:
  "(float_gt (actual_eps r) (estimate_eps r)
      \<and> float_gt (actual_revenue r) (estimate_revenue r) \<longrightarrow> is_good_earnings r)
   \<and> (float_le (actual_eps r) (estimate_eps r)
      \<or> float_le (actual_revenue r) (estimate_revenue r) \<longrightarrow> \<not> is_good_earnings r)
   \<and> (float_eq (actual_eps r) (estimate_eps r)
      \<or> float_eq (actual_revenue r) (estimate_revenue r) \<longrightarrow> \<not> is_good_earnings r)"
  unfolding is_good_earnings_def
  using float_le_not_gt float_eq_not_gt by blast

theorem is_good_earnings_strict_witness:
  "is_good_earnings scenario1_earnings
   \<and> \<not> is_good_earnings scenario2_earnings
   \<and> \<not> is_good_earnings boundary_earnings"
proof -
  have g1: "float_gt (actual_eps scenario1_earnings) (estimate_eps scenario1_earnings)"
    by (simp add: scenario1_earnings_def f_2_10_def f_2_00_def scaled_def)
  have g2: "float_gt (actual_revenue scenario1_earnings) (estimate_revenue scenario1_earnings)"
    by (simp add: scenario1_earnings_def f_500_def f_480_def scaled_def)
  have l: "float_le (actual_eps scenario2_earnings) (estimate_eps scenario2_earnings)"
    by (simp add: scenario2_earnings_def f_1_90_def f_2_00_def scaled_def)
  have e: "float_eq (actual_eps boundary_earnings) (estimate_eps boundary_earnings)"
    by (simp add: boundary_earnings_def f_1_50_def scaled_def)
  show ?thesis
    using is_good_earnings_strict [of scenario1_earnings]
      is_good_earnings_strict [of scenario2_earnings]
      is_good_earnings_strict [of boundary_earnings] g1 g2 l e
    by blast
qed

end
